theory Spec2Isabelle
  imports Complex_Main
begin

section \<open>Values of the program\<close>

text \<open>
  The program is \<^verbatim>\<open>src/app.py\<close>. Its only function with algorithmic content is
  \<^verbatim>\<open>create_output_image(model_type, image, glass, output)\<close>; \<^verbatim>\<open>perform_inference\<close> calls it
  inside a bare \<^verbatim>\<open>try/except\<close>.

  Exceptions are values: a raise of the source is an \<open>Inl\<close> of the model.
\<close>

datatype py_error = IndexError | ValueError | AttributeError | ZeroDivisionError | Cv2Error

subsection \<open>Python sequences\<close>

text \<open>
  \<^verbatim>\<open>xs[i]\<close> on a Python list: an index from \<open>-len\<close> to \<open>-1\<close> counts from the end, an
  index outside \<open>[-len, len)\<close> raises IndexError.
\<close>

definition py_getitem :: "'a list \<Rightarrow> int \<Rightarrow> py_error + 'a" where
  "py_getitem xs i =
     (if 0 \<le> i \<and> i < int (length xs) then Inr (xs ! nat i)
      else if i < 0 \<and> - int (length xs) \<le> i then Inr (xs ! nat (i + int (length xs)))
      else Inl IndexError)"

subsection \<open>The category tables (lines 9-11)\<close>

definition CAR_COLORS :: "string list" where
  "CAR_COLORS = [''white'', ''gray'', ''yellow'', ''red'', ''green'', ''blue'', ''black'']"

definition CAR_TYPES :: "string list" where
  "CAR_TYPES = [''car'', ''bus'', ''truck'', ''van'']"

definition GENDER_TYPES :: "string list" where
  "GENDER_TYPES = [''female'', ''male'']"

text \<open>
  Lines 87-88 of \<^verbatim>\<open>create_output_image\<close>: the colour is looked up first, then the type, so
  a bad colour index raises before the type index is read.
\<close>

definition decodeCarMeta :: "int \<Rightarrow> int \<Rightarrow> py_error + (string \<times> string)" where
  "decodeCarMeta colorIndex typeIndex =
     (case py_getitem CAR_COLORS colorIndex of
        Inl e \<Rightarrow> Inl e
      | Inr color \<Rightarrow>
          (case py_getitem CAR_TYPES typeIndex of
             Inl e \<Rightarrow> Inl e
           | Inr car_type \<Rightarrow> Inr (color, car_type)))"

text \<open>Lines 129-131: the age is passed through, the gender is looked up.\<close>

definition decodeGender :: "int \<Rightarrow> int \<Rightarrow> py_error + (int \<times> string)" where
  "decodeGender age genderIndex =
     (case py_getitem GENDER_TYPES genderIndex of
        Inl e \<Rightarrow> Inl e
      | Inr gender_type \<Rightarrow> Inr (age, gender_type))"

subsection \<open>Arrays\<close>

text \<open>
  A two-dimensional numpy array is its shape and its cells; only cells inside the shape
  are meaningful. An image of shape \<open>(H, W, 3)\<close> is an array of pixels, a pixel being
  its three samples in channel order 0, 1, 2; channel 1 is green in OpenCV's BGR order
  as in RGB order. Samples are integers: \<^verbatim>\<open>cv2.imread\<close> gives 8-bit samples (0 to 255),
  and the float64 arrays that \<^verbatim>\<open>image + mask\<close> produces hold integers exactly.
\<close>

record 'a arr =
  nrows :: nat
  ncols :: nat
  cell :: "nat \<Rightarrow> nat \<Rightarrow> 'a"

type_synonym pixel = "int \<times> int \<times> int"

type_synonym rgba = "int \<times> int \<times> int \<times> int"

text \<open>
  The decoded output of POSE and TEXT: a stack of probability maps of shape
  \<open>(nchan, srows, scols)\<close>. A probability is a real number, the value its float denotes;
  the comparison with 0.5 is exact on floats.
\<close>

record stack =
  nchan :: nat
  srows :: nat
  scols :: nat
  chan :: "nat \<Rightarrow> nat \<Rightarrow> nat \<Rightarrow> real"

text \<open>
  Python's \<^verbatim>\<open>output\<close> is untyped. The decoder \<^verbatim>\<open>handle_output\<close> gives a float stack for
  POSE and TEXT and an integer sequence for CAR_META, FACIAL, GLASS and GENDER. The
  model's argument carries both readings, and each branch reads the one the source
  reads there.
\<close>

record decoded =
  maps :: stack
  seq :: "int list"

text \<open>\<^verbatim>\<open>output[c]\<close> for a channel \<open>c\<close> inside the stack.\<close>

definition plane :: "stack \<Rightarrow> nat \<Rightarrow> real arr" where
  "plane s c = \<lparr>nrows = srows s, ncols = scols s, cell = chan s c\<rparr>"

text \<open>\<^verbatim>\<open>output[:-1]\<close>: all channels but the last; an empty stack stays empty.\<close>

definition drop_last :: "stack \<Rightarrow> stack" where
  "drop_last s = s\<lparr>nchan := nchan s - 1\<rparr>"

text \<open>\<^verbatim>\<open>np.where(m > 0.5, 255, 0)\<close>, element by element.\<close>

definition np_where_gt :: "real arr \<Rightarrow> int arr" where
  "np_where_gt m =
     \<lparr>nrows = nrows m, ncols = ncols m,
      cell = (\<lambda>i j. if cell m i j > 0.5 then 255 else 0)\<rparr>"

text \<open>\<^verbatim>\<open>np.sum(planes, axis=0)\<close> over planes of shape \<open>(h, w)\<close>.\<close>

definition np_sum_axis0 :: "nat \<Rightarrow> nat \<Rightarrow> int arr list \<Rightarrow> int arr" where
  "np_sum_axis0 h w ps =
     \<lparr>nrows = h, ncols = w, cell = (\<lambda>i j. sum_list (map (\<lambda>p. cell p i j) ps))\<rparr>"

text \<open>Lines 66-71: drop the last channel, threshold every channel left, sum them.\<close>

definition pose_heat :: "stack \<Rightarrow> int arr" where
  "pose_heat s =
     (let out = drop_last s;
          thresholded = map (\<lambda>c. np_where_gt (plane out c)) [0..<nchan out]
      in np_sum_axis0 (srows out) (scols out) thresholded)"

text \<open>Line 79: \<^verbatim>\<open>output[1]\<close> raises IndexError on a stack of fewer than two channels.\<close>

definition text_heat :: "stack \<Rightarrow> py_error + int arr" where
  "text_heat s = (if 1 < nchan s then Inr (np_where_gt (plane s 1)) else Inl IndexError)"

text \<open>
  \<^verbatim>\<open>get_mask\<close> (lines 46-56): zeros of the map's shape in channels 0 and 2, the map in
  channel 1.
\<close>

definition get_mask :: "int arr \<Rightarrow> pixel arr" where
  "get_mask processed_output =
     \<lparr>nrows = nrows processed_output, ncols = ncols processed_output,
      cell = (\<lambda>i j. (0, cell processed_output i j, 0))\<rparr>"

text \<open>
  \<^verbatim>\<open>image + mask\<close> (lines 75 and 83). The mask is a float64 array, so the sum is a new
  float64 array: nothing wraps and nothing is clamped. numpy broadcasts each axis: equal
  lengths pair up, a length of 1 is stretched, anything else raises ValueError.
\<close>

definition bdim :: "nat \<Rightarrow> nat \<Rightarrow> nat option" where
  "bdim a b = (if a = b then Some a else if a = 1 then Some b else if b = 1 then Some a else None)"

definition bidx :: "nat \<Rightarrow> nat \<Rightarrow> nat" where
  "bidx n i = (if n = 1 then 0 else i)"

definition padd :: "pixel \<Rightarrow> pixel \<Rightarrow> pixel" where
  "padd p q = (case p of (a, b, c) \<Rightarrow> (case q of (d, e, f) \<Rightarrow> (a + d, b + e, c + f)))"

definition np_add :: "pixel arr \<Rightarrow> pixel arr \<Rightarrow> py_error + pixel arr" where
  "np_add img msk =
     (case bdim (nrows img) (nrows msk) of
        None \<Rightarrow> Inl ValueError
      | Some h \<Rightarrow>
          (case bdim (ncols img) (ncols msk) of
             None \<Rightarrow> Inl ValueError
           | Some w \<Rightarrow>
               Inr \<lparr>nrows = h, ncols = w,
                    cell = (\<lambda>i j. padd (cell img (bidx (nrows img) i) (bidx (ncols img) j))
                                         (cell msk (bidx (nrows msk) i) (bidx (ncols msk) j)))\<rparr>))"

text \<open>
  \<^verbatim>\<open>a[r, c] = v\<close> on a numpy array: each index is checked against its axis, an index from
  \<open>-n\<close> to \<open>-1\<close> counts from the end, an index outside \<open>[-n, n)\<close> raises IndexError.
\<close>

definition in_axis :: "nat \<Rightarrow> int \<Rightarrow> bool" where
  "in_axis n k = (- int n \<le> k \<and> k < int n)"

definition wrap_index :: "nat \<Rightarrow> int \<Rightarrow> nat" where
  "wrap_index n k = nat (if k < 0 then k + int n else k)"

definition norm_index :: "nat \<Rightarrow> int \<Rightarrow> py_error + nat" where
  "norm_index n k = (if in_axis n k then Inr (wrap_index n k) else Inl IndexError)"

definition np_setitem :: "'a arr \<Rightarrow> int \<Rightarrow> int \<Rightarrow> 'a \<Rightarrow> py_error + 'a arr" where
  "np_setitem a r c v =
     (case norm_index (nrows a) r of
        Inl e \<Rightarrow> Inl e
      | Inr i \<Rightarrow>
          (case norm_index (ncols a) c of
             Inl e \<Rightarrow> Inl e
           | Inr j \<Rightarrow> Inr (a\<lparr>cell := (cell a)(i := (cell a i)(j := v))\<rparr>)))"

subsection \<open>Drawing\<close>

text \<open>
  \<^verbatim>\<open>cv2.circle\<close> and \<^verbatim>\<open>cv2.putText\<close> are library primitives that draw into the buffer they
  are given. The model keeps the pixels the buffer had and the list of drawing calls made
  on it since, oldest first: a canvas with an empty list is an untouched buffer.
\<close>

datatype font = FONT_HERSHEY_SIMPLEX

datatype draw_call =
  Circle "int \<times> int" int pixel int
| PutText string "int \<times> int" font real pixel int

record canvas =
  pixels :: "pixel arr"
  drawn :: "draw_call list"

definition fresh :: "pixel arr \<Rightarrow> canvas" where
  "fresh img = \<lparr>pixels = img, drawn = []\<rparr>"

definition cv2_circle :: "canvas \<Rightarrow> int \<times> int \<Rightarrow> int \<Rightarrow> pixel \<Rightarrow> int \<Rightarrow> canvas" where
  "cv2_circle cv center radius color thickness =
     cv\<lparr>drawn := drawn cv @ [Circle center radius color thickness]\<rparr>"

definition cv2_putText ::
  "canvas \<Rightarrow> string \<Rightarrow> int \<times> int \<Rightarrow> font \<Rightarrow> real \<Rightarrow> pixel \<Rightarrow> int \<Rightarrow> canvas" where
  "cv2_putText cv txt org fnt fontScale color thickness =
     cv\<lparr>drawn := drawn cv @ [PutText txt org fnt fontScale color thickness]\<rparr>"

text \<open>
  The coordinates of a point go to OpenCV as 32-bit signed integers: \<^verbatim>\<open>cv2.circle\<close> and
  \<^verbatim>\<open>cv2.putText\<close> raise \<^verbatim>\<open>cv2.error\<close>, and draw nothing, for a Python integer outside that
  range.
\<close>

definition fits_int32 :: "int \<Rightarrow> bool" where
  "fits_int32 k = (- (2 ^ 31) \<le> k \<and> k < 2 ^ 31)"

subsection \<open>Python's str and int\<close>

definition digit_char :: "nat \<Rightarrow> char" where
  "digit_char d = ''0123456789'' ! d"

fun str_nat :: "nat \<Rightarrow> string" where
  "str_nat n = (if n < 10 then [digit_char n] else str_nat (n div 10) @ [digit_char (n mod 10)])"

declare str_nat.simps [simp del]

definition str_int :: "int \<Rightarrow> string" where
  "str_int i = (if i < 0 then CHR ''-'' # str_nat (nat (- i)) else str_nat (nat i))"

text \<open>\<^verbatim>\<open>int(x)\<close> on a float truncates towards zero.\<close>

definition py_int :: "real \<Rightarrow> int" where
  "py_int x = (if 0 \<le> x then \<lfloor>x\<rfloor> else \<lceil>x\<rceil>)"

text \<open>\<^verbatim>\<open>range(0, n, 2)\<close>.\<close>

definition range_step2 :: "nat \<Rightarrow> nat list" where
  "range_step2 n = map (\<lambda>k. 2 * k) [0..<(n + 1) div 2]"

subsection \<open>The result of a call\<close>

text \<open>
  A call of \<^verbatim>\<open>create_output_image\<close> either returns an image or raises; it may have drawn
  into the caller's image buffer before, and it may have printed. The model returns all
  three: what the call returned, what the caller's buffer holds afterwards, and the
  lines printed.
\<close>

record outcome =
  returned :: "py_error + canvas"
  caller_image :: canvas
  printed :: "string list"

definition raised :: "py_error \<Rightarrow> canvas \<Rightarrow> outcome" where
  "raised e buf = \<lparr>returned = Inl e, caller_image = buf, printed = []\<rparr>"

text \<open>A branch that returns the caller's own buffer, drawn into in place.\<close>

definition in_place :: "canvas \<Rightarrow> outcome" where
  "in_place buf = \<lparr>returned = Inr buf, caller_image = buf, printed = []\<rparr>"

text \<open>A branch that returns a new array and leaves the caller's buffer as it was.\<close>

definition new_array :: "pixel arr \<Rightarrow> pixel arr \<Rightarrow> outcome" where
  "new_array img res = \<lparr>returned = Inr (fresh res), caller_image = fresh img, printed = []\<rparr>"

subsection \<open>The branches of \<^verbatim>\<open>create_output_image\<close>\<close>

text \<open>POSE, lines 64-76, and TEXT, lines 77-84.\<close>

definition pose_branch :: "pixel arr \<Rightarrow> stack \<Rightarrow> outcome" where
  "pose_branch img output =
     (case np_add img (get_mask (pose_heat output)) of
        Inl e \<Rightarrow> raised e (fresh img)
      | Inr res \<Rightarrow> new_array img res)"

definition text_branch :: "pixel arr \<Rightarrow> stack \<Rightarrow> outcome" where
  "text_branch img output =
     (case text_heat output of
        Inl e \<Rightarrow> raised e (fresh img)
      | Inr m \<Rightarrow>
          (case np_add img (get_mask m) of
             Inl e \<Rightarrow> raised e (fresh img)
           | Inr res \<Rightarrow> new_array img res))"

text \<open>
  CAR_META, lines 85-96. The source reads \<^verbatim>\<open>output[0]\<close>, looks the colour up, reads
  \<^verbatim>\<open>output[1]\<close>, looks the type up, and only then draws.
\<close>

definition car_meta_branch :: "pixel arr \<Rightarrow> int list \<Rightarrow> outcome" where
  "car_meta_branch img output =
     (case py_getitem output 0 of
        Inl e \<Rightarrow> raised e (fresh img)
      | Inr ci \<Rightarrow>
     (case py_getitem CAR_COLORS ci of
        Inl e \<Rightarrow> raised e (fresh img)
      | Inr color \<Rightarrow>
     (case py_getitem output 1 of
        Inl e \<Rightarrow> raised e (fresh img)
      | Inr ti \<Rightarrow>
     (case py_getitem CAR_TYPES ti of
        Inl e \<Rightarrow> raised e (fresh img)
      | Inr car_type \<Rightarrow>
          (let scaler = max (int (nrows img) div 1000) 1
           in in_place (cv2_putText (fresh img)
                (''Color: '' @ color @ '', Type: '' @ car_type)
                (50 * scaler, 100 * scaler) FONT_HERSHEY_SIMPLEX
                (real_of_int (2 * scaler)) (0, 255, 0) (3 * scaler)))))))"

text \<open>
  FACIAL, lines 97-113. \<^verbatim>\<open>output[i]\<close> is inside the list for every \<open>i\<close> of the range;
  \<^verbatim>\<open>output[i+1]\<close> raises IndexError when \<open>i\<close> is the last index, before anything is drawn
  for that \<open>i\<close>. \<^verbatim>\<open>cv2.circle\<close> is the first to get the point, and raises for a coordinate
  that does not fit; \<^verbatim>\<open>cv2.putText\<close> gets the same point after it. The seventh argument of
  \<^verbatim>\<open>cv2.putText\<close> is the thickness (the source calls it lineType).
\<close>

fun facial_loop :: "int list \<Rightarrow> nat list \<Rightarrow> canvas \<Rightarrow> py_error option \<times> canvas" where
  "facial_loop output [] cv = (None, cv)"
| "facial_loop output (i # rest) cv =
     (if i + 1 < length output
      then if fits_int32 (output ! i) \<and> fits_int32 (output ! (i + 1))
           then facial_loop output rest
                  (cv2_putText
                     (cv2_circle cv (output ! i, output ! (i + 1)) 4 (255, 0, 0) (- 1))
                     (''p'' @ str_nat (i div 2)) (output ! i, output ! (i + 1))
                     FONT_HERSHEY_SIMPLEX 0.7 (255, 255, 255) 2)
           else (Some Cv2Error, cv)
      else (Some IndexError, cv))"

definition facial_branch :: "pixel arr \<Rightarrow> int list \<Rightarrow> outcome" where
  "facial_branch img output =
     (case facial_loop output (range_step2 (length output)) (fresh img) of
        (None, cv) \<Rightarrow> in_place cv
      | (Some e, cv) \<Rightarrow> raised e cv)"

text \<open>GENDER, lines 127-138.\<close>

definition gender_branch :: "pixel arr \<Rightarrow> int list \<Rightarrow> outcome" where
  "gender_branch img output =
     (case py_getitem output 0 of
        Inl e \<Rightarrow> raised e (fresh img)
      | Inr age \<Rightarrow>
     (case py_getitem output 1 of
        Inl e \<Rightarrow> raised e (fresh img)
      | Inr gi \<Rightarrow>
     (case py_getitem GENDER_TYPES gi of
        Inl e \<Rightarrow> raised e (fresh img)
      | Inr gender_type \<Rightarrow>
          (let scaler = max (int (nrows img) div 5000) 1
           in in_place (cv2_putText (fresh img)
                (str_int age @ '','' @ gender_type @ '' '')
                (20, int (nrows img) - 10) FONT_HERSHEY_SIMPLEX
                (real_of_int (2 * scaler)) (0, 255, 0) (3 * scaler))))))"

text \<open>
  GLASS, lines 114-126. The overlay asset is an array of shape \<open>(rows, cols, 4)\<close>, the
  fourth sample being alpha. \<^verbatim>\<open>cv2.imread\<close> returns None for a file it cannot read, which
  the model takes as the argument \<^verbatim>\<open>glass\<close> itself; \<^verbatim>\<open>cv2.resize\<close> is a parameter, called with
  the size \<open>(width, height)\<close> and returning an array or raising.

  Line 117: the scale, from the entries 36, 37, 68 and 69 of the landmark list; a list of
  fewer than 70 entries raises IndexError. The square root is the real one.
\<close>

definition overlay_scale :: "int list \<Rightarrow> py_error + real" where
  "overlay_scale output =
     (if length output < 70 then Inl IndexError
      else Inr (sqrt (real_of_int ((output ! 36 - output ! 68)\<^sup>2 + (output ! 37 - output ! 69)\<^sup>2))))"

text \<open>
  Lines 122-125, the two nested loops in the order they run: the index pairs are those of
  \<open>List.product\<close>, rows outside and columns inside; \<^verbatim>\<open>glasses[i,j][3]\<close> is the alpha sample
  and \<^verbatim>\<open>glasses[i,j][:-1]\<close> the three before it. A write that raises ends the loop and
  leaves the writes made before it in the buffer.
\<close>

definition alpha :: "rgba \<Rightarrow> int" where
  "alpha p = snd (snd (snd p))"

definition rgb :: "rgba \<Rightarrow> pixel" where
  "rgb p = (fst p, fst (snd p), fst (snd (snd p)))"

fun overlay_loop ::
  "rgba arr \<Rightarrow> int \<Rightarrow> int \<Rightarrow> (nat \<times> nat) list \<Rightarrow> pixel arr \<Rightarrow> py_error option \<times> pixel arr" where
  "overlay_loop glasses tv th [] img = (None, img)"
| "overlay_loop glasses tv th ((i, j) # rest) img =
     (if alpha (cell glasses i j) \<noteq> 0
      then (case np_setitem img (int i + tv) (int j + th) (rgb (cell glasses i j)) of
              Inl e \<Rightarrow> (Some e, img)
            | Inr img' \<Rightarrow> overlay_loop glasses tv th rest img')
      else overlay_loop glasses tv th rest img)"

text \<open>
  Lines 119-120: the offsets. The vertical one is taken from entries 1 and 5 and the
  second length of the asset's shape, the horizontal one from entries 0 and 4 and the
  first.
\<close>

definition translation_vertical :: "rgba arr \<Rightarrow> int list \<Rightarrow> int" where
  "translation_vertical glasses output =
     py_int (real_of_int (output ! 1 + output ! 5) / 2 - real (ncols glasses) / 2)"

definition translation_horizontal :: "rgba arr \<Rightarrow> int list \<Rightarrow> int" where
  "translation_horizontal glasses output =
     py_int (real_of_int (output ! 0 + output ! 4) / 2 - real (nrows glasses) / 2)"

text \<open>Lines 121-126, on the resized asset.\<close>

definition overlay :: "pixel arr \<Rightarrow> rgba arr \<Rightarrow> int list \<Rightarrow> outcome" where
  "overlay img glasses output =
     (case overlay_loop glasses (translation_vertical glasses output)
             (translation_horizontal glasses output)
             (List.product [0..<nrows glasses] [0..<ncols glasses]) img of
        (None, img') \<Rightarrow> in_place (fresh img')
      | (Some e, img') \<Rightarrow> raised e (fresh img'))"

definition glass_branch ::
  "(rgba arr \<Rightarrow> int \<times> int \<Rightarrow> py_error + rgba arr) \<Rightarrow>
   pixel arr \<Rightarrow> rgba arr option \<Rightarrow> int list \<Rightarrow> outcome" where
  "glass_branch cv2_resize img glass output =
     (case overlay_scale output of
        Inl e \<Rightarrow> raised e (fresh img)
      | Inr scale \<Rightarrow>
     (case glass of
        None \<Rightarrow> raised AttributeError (fresh img)
      | Some glasses \<Rightarrow>
          if ncols glasses = 0 then raised ZeroDivisionError (fresh img)
          else
            (case cv2_resize glasses
                    (py_int scale, py_int (scale * real (nrows glasses) / real (ncols glasses))) of
               Inl e \<Rightarrow> raised e (fresh img)
             | Inr resized \<Rightarrow> overlay img resized output)))"

subsection \<open>The dispatcher\<close>

text \<open>
  \<^verbatim>\<open>create_output_image\<close>, lines 59-141: a chain of string comparisons on the tag, in the
  order of the source, with the fallback last.
\<close>

definition unknown_message :: string where
  "unknown_message = ''Unknown model type, unable to create output image.''"

definition create_output_image ::
  "(rgba arr \<Rightarrow> int \<times> int \<Rightarrow> py_error + rgba arr) \<Rightarrow>
   string \<Rightarrow> pixel arr \<Rightarrow> rgba arr option \<Rightarrow> decoded \<Rightarrow> outcome" where
  "create_output_image cv2_resize model_type img glass output =
     (if model_type = ''POSE'' then pose_branch img (maps output)
      else if model_type = ''TEXT'' then text_branch img (maps output)
      else if model_type = ''CAR_META'' then car_meta_branch img (seq output)
      else if model_type = ''FACIAL'' then facial_branch img (seq output)
      else if model_type = ''GLASS'' then glass_branch cv2_resize img glass (seq output)
      else if model_type = ''GENDER'' then gender_branch img (seq output)
      else \<lparr>returned = Inr (fresh img), caller_image = fresh img, printed = [unknown_message]\<rparr>)"

text \<open>
  \<^verbatim>\<open>perform_inference\<close>, lines 171-181: the call sits in a bare \<^verbatim>\<open>try/except\<close>. On any
  exception the image saved is the caller's buffer as the failed call left it.
\<close>

record saved =
  output_image :: canvas
  console :: "string list"

definition perform_inference ::
  "(rgba arr \<Rightarrow> int \<times> int \<Rightarrow> py_error + rgba arr) \<Rightarrow>
   string \<Rightarrow> pixel arr \<Rightarrow> rgba arr option \<Rightarrow> decoded \<Rightarrow> saved" where
  "perform_inference cv2_resize t img g processed_output =
     (let oc = create_output_image cv2_resize t img g processed_output
      in case returned oc of
           Inr output_img \<Rightarrow> \<lparr>output_image = output_img, console = printed oc @ [''Success'']\<rparr>
         | Inl e \<Rightarrow> \<lparr>output_image = caller_image oc, console = printed oc @ [''Error'']\<rparr>)"

subsection \<open>Concrete inputs\<close>

text \<open>An array with the same value in every cell.\<close>

definition const_arr :: "nat \<Rightarrow> nat \<Rightarrow> 'a \<Rightarrow> 'a arr" where
  "const_arr h w v = \<lparr>nrows = h, ncols = w, cell = (\<lambda>i j. v)\<rparr>"

definition no_maps :: stack where
  "no_maps = \<lparr>nchan = 0, srows = 0, scols = 0, chan = (\<lambda>c i j. 0)\<rparr>"

text \<open>A decoded output read as an integer sequence, and one read as a stack.\<close>

definition ints :: "int list \<Rightarrow> decoded" where
  "ints xs = \<lparr>maps = no_maps, seq = xs\<rparr>"

definition heat :: "stack \<Rightarrow> decoded" where
  "heat s = \<lparr>maps = s, seq = []\<rparr>"

text \<open>
  \<^verbatim>\<open>cv2.resize\<close> asked for the size the array already has copies it. The concrete calls
  below ask for that size only; for any other size this stand-in raises.
\<close>

definition resize_same :: "rgba arr \<Rightarrow> int \<times> int \<Rightarrow> py_error + rgba arr" where
  "resize_same a dsize =
     (if dsize = (int (ncols a), int (nrows a)) then Inr a else Inl Cv2Error)"

text \<open>
  Three maps of one row and two columns: channel 0 holds 0.9 and 0.5, channel 1 holds 0.7
  twice, channel 2 holds 0.99 twice.
\<close>

definition example_stack :: stack where
  "example_stack =
     \<lparr>nchan = 3, srows = 1, scols = 2,
      chan = (\<lambda>c i j. if c = 0 then (if j = 0 then 9 / 10 else 1 / 2)
                       else if c = 1 then 7 / 10 else 99 / 100)\<rparr>"

text \<open>Seventy landmark entries, all 0 but entry 68, which is 3, and entry 69, which is 4.\<close>

definition landmarks_3_4_5 :: "int list" where
  "landmarks_3_4_5 = replicate 68 0 @ [3, 4]"

text \<open>
  An opaque overlay asset of \<open>n\<close> by \<open>n\<close> pixels, a black image of \<open>n\<close> by \<open>n\<close> pixels, and
  three landmark lists of 70 entries whose entries 36, 37, 68 and 69 give the scale 2:
  with an asset of 2 by 2 the first gives the offsets \<open>(-1, -1)\<close>, the second \<open>(1, -1)\<close>
  and the third \<open>(0, 0)\<close>.
\<close>

definition asset :: "nat \<Rightarrow> rgba arr" where
  "asset n = const_arr n n (9, 9, 9, 255)"

definition black :: "nat \<Rightarrow> pixel arr" where
  "black n = const_arr n n (0, 0, 0)"

definition landmarks_wrap :: "int list" where
  "landmarks_wrap = replicate 36 0 @ [2] @ replicate 33 0"

definition landmarks_low :: "int list" where
  "landmarks_low = [0, 4] @ replicate 34 0 @ [2] @ replicate 33 0"

definition landmarks_inside :: "int list" where
  "landmarks_inside = [2, 2] @ replicate 34 0 @ [2] @ replicate 33 0"

subsection \<open>What a landmark is to look like\<close>

text \<open>
  The two drawing calls that the description of the landmark renderer asks of landmark
  \<open>k\<close>: a filled circle (thickness \<open>-1\<close>) of radius 4 at the \<open>k\<close>-th pair, and the label
  \<open>p\<close> followed by \<open>k\<close> at the same point, at font scale 0.7.
\<close>

definition marker :: "int list \<Rightarrow> nat \<Rightarrow> draw_call list" where
  "marker pts k =
     [Circle (pts ! (2 * k), pts ! (2 * k + 1)) 4 (255, 0, 0) (- 1),
      PutText (''p'' @ str_nat k) (pts ! (2 * k), pts ! (2 * k + 1))
        FONT_HERSHEY_SIMPLEX (7 / 10) (255, 255, 255) 2]"

subsection \<open>Where an asset pixel lands\<close>


section \<open>Properties\<close>

subsection \<open>Table lookups\<close>

lemma table_lengths:
  "length CAR_COLORS = 7" "length CAR_TYPES = 4" "length GENDER_TYPES = 2"
  by (simp_all add: CAR_COLORS_def CAR_TYPES_def GENDER_TYPES_def)

lemma py_getitem_cases:
  "py_getitem xs i =
     (if - int (length xs) \<le> i \<and> i < int (length xs)
      then Inr (xs ! nat (if i < 0 then i + int (length xs) else i)) else Inl IndexError)"
  by (auto simp: py_getitem_def)

text \<open>
  C4, as the claim states it, fails: a negative index does not make the lookup fail. Index
  \<open>-1\<close> is the last entry of the table.
\<close>

theorem decode_negative_index_counterexample:
  "decodeCarMeta (- 1) 0 = Inr (''black'', ''car'') \<and> decodeGender 25 (- 1) = Inr (25, ''male'')"
  by (simp add: decodeCarMeta_def decodeGender_def py_getitem_def
        CAR_COLORS_def CAR_TYPES_def GENDER_TYPES_def)

text \<open>
  C4, amended: \<open>decodeCarMeta\<close> and \<open>decodeGender\<close> are pure table lookups. They raise
  IndexError exactly for an index outside \<open>[-len, len)\<close>, the tables having 7, 4 and 2
  entries; an index from \<open>-len\<close> to \<open>-1\<close> counts from the end of the table; an index in
  \<open>[0, len)\<close> returns its label, and \<open>decodeCarMeta 0 0\<close> is white, car.
\<close>

theorem decode_lookup:
  "decodeCarMeta ci ti =
     (if - 7 \<le> ci \<and> ci < 7 \<and> - 4 \<le> ti \<and> ti < 4
      then Inr (CAR_COLORS ! nat (if ci < 0 then ci + 7 else ci),
                CAR_TYPES ! nat (if ti < 0 then ti + 4 else ti))
      else Inl IndexError)
   \<and> decodeGender age gi =
     (if - 2 \<le> gi \<and> gi < 2
      then Inr (age, GENDER_TYPES ! nat (if gi < 0 then gi + 2 else gi))
      else Inl IndexError)
   \<and> length CAR_COLORS = 7 \<and> length CAR_TYPES = 4 \<and> length GENDER_TYPES = 2
   \<and> decodeCarMeta 0 0 = Inr (''white'', ''car'')"
  by (simp add: decodeCarMeta_def decodeGender_def py_getitem_cases table_lengths)
     (simp add: CAR_COLORS_def CAR_TYPES_def)

theorem decode_lookup_witness:
  "decodeCarMeta 6 3 = Inr (''black'', ''van'') \<and> decodeCarMeta 7 0 = Inl IndexError
   \<and> decodeCarMeta (- 7) (- 4) = Inr (''white'', ''car'') \<and> decodeCarMeta (- 8) 0 = Inl IndexError
   \<and> decodeGender 25 1 = Inr (25, ''male'') \<and> decodeGender 25 2 = Inl IndexError"
  using decode_lookup [of 6 3] decode_lookup [of 7 0] decode_lookup [of "- 7" "- 4"]
    decode_lookup [of "- 8" 0] decode_lookup [of _ _ 25 1] decode_lookup [of _ _ 25 2]
  by (simp add: CAR_COLORS_def CAR_TYPES_def GENDER_TYPES_def)

subsection \<open>The fallback of the dispatcher\<close>

text \<open>
  C3: for every image and every tag that is none of POSE, TEXT, CAR_META, FACIAL, GLASS,
  GENDER, the dispatcher prints its warning and returns the input image, pixel for pixel
  and with nothing drawn on it; it returns, it does not raise, and the caller's buffer is
  untouched.
\<close>

theorem unknown_tag_passthrough:
  "model_type \<notin> {''POSE'', ''TEXT'', ''CAR_META'', ''FACIAL'', ''GLASS'', ''GENDER''} \<Longrightarrow>
   create_output_image cv2_resize model_type img glass output =
     \<lparr>returned = Inr (fresh img), caller_image = fresh img, printed = [unknown_message]\<rparr>"
  by (simp add: create_output_image_def)

theorem unknown_tag_passthrough_witness:
  "create_output_image resize_same ''UNKNOWN'' (const_arr 2 2 (1, 2, 3)) None (ints []) =
     \<lparr>returned = Inr (fresh (const_arr 2 2 (1, 2, 3))),
      caller_image = fresh (const_arr 2 2 (1, 2, 3)),
      printed = [''Unknown model type, unable to create output image.'']\<rparr>"
  using unknown_tag_passthrough [of "''UNKNOWN''" resize_same "const_arr 2 2 (1, 2, 3)" None "ints []"]
  by (simp add: unknown_message_def)

lemma printed_simps [simp]:
  "printed (raised e buf) = []" "printed (in_place buf) = []" "printed (new_array img res) = []"
  by (simp_all add: raised_def in_place_def new_array_def)

lemma branches_print_nothing:
  "printed (pose_branch img s) = []"
  "printed (text_branch img s) = []"
  "printed (car_meta_branch img xs) = []"
  "printed (facial_branch img xs) = []"
  "printed (gender_branch img xs) = []"
  "printed (glass_branch rs img g xs) = []"
  by (simp_all add: pose_branch_def text_branch_def car_meta_branch_def facial_branch_def
        gender_branch_def glass_branch_def overlay_def Let_def
        split: sum.splits option.splits prod.splits)

text \<open>
  C10: the dispatch is decided by equality of strings. The fallback (the only branch that
  prints the warning) is taken exactly when the tag is none of the six literals,
  character for character; there the image is returned unchanged. Lowercase \<open>pose\<close> and
  \<open>POSE\<close> with a space on either side take the fallback.
\<close>

theorem dispatch_exact_match:
  "(printed (create_output_image cv2_resize t img glass out) = [unknown_message])
     = (t \<notin> {''POSE'', ''TEXT'', ''CAR_META'', ''FACIAL'', ''GLASS'', ''GENDER''})
   \<and> (t \<notin> {''POSE'', ''TEXT'', ''CAR_META'', ''FACIAL'', ''GLASS'', ''GENDER''} \<longrightarrow>
        returned (create_output_image cv2_resize t img glass out) = Inr (fresh img))
   \<and> returned (create_output_image cv2_resize ''pose'' img glass out) = Inr (fresh img)
   \<and> returned (create_output_image cv2_resize '' POSE '' img glass out) = Inr (fresh img)"
  by (simp add: create_output_image_def branches_print_nothing)

theorem dispatch_exact_match_witness:
  "printed (create_output_image resize_same ''Pose'' (const_arr 1 1 (1, 2, 3)) None (heat example_stack))
     = [unknown_message]
   \<and> returned (create_output_image resize_same ''Pose'' (const_arr 1 1 (1, 2, 3)) None (heat example_stack))
     = Inr (fresh (const_arr 1 1 (1, 2, 3)))
   \<and> printed (create_output_image resize_same ''POSE'' (const_arr 1 1 (1, 2, 3)) None (heat example_stack))
     \<noteq> [unknown_message]"
  using dispatch_exact_match [where t = "''Pose''" and ?cv2_resize = resize_same
      and img = "const_arr 1 1 (1, 2, 3)" and glass = None and out = "heat example_stack"]
    dispatch_exact_match [where t = "''POSE''" and ?cv2_resize = resize_same
      and img = "const_arr 1 1 (1, 2, 3)" and glass = None and out = "heat example_stack"]
  by simp

subsection \<open>Thresholding\<close>

text \<open>
  C1: thresholding maps an element to 255 exactly when it is greater than 0.5 and to 0
  otherwise, so 0.5 itself gives 0, and keeps the shape. For POSE the last channel is
  dropped, every channel left is thresholded and the channels are summed element by
  element into one map of the maps' shape. For TEXT only channel 1 is thresholded; a
  stack with no channel 1 raises IndexError. The dispatcher adds the mask of exactly these
  maps to the image.
\<close>

theorem threshold_stage:
  "cell (np_where_gt m) i j = (if cell m i j > 1 / 2 then 255 else 0)
   \<and> (cell m i j = 1 / 2 \<longrightarrow> cell (np_where_gt m) i j = 0)
   \<and> nrows (np_where_gt m) = nrows m \<and> ncols (np_where_gt m) = ncols m
   \<and> cell (pose_heat s) i j = (\<Sum>c<nchan s - 1. if chan s c i j > 1 / 2 then 255 else 0)
   \<and> nrows (pose_heat s) = srows s \<and> ncols (pose_heat s) = scols s
   \<and> (1 < nchan s \<longrightarrow> (\<exists>m. text_heat s = Inr m \<and> nrows m = srows s \<and> ncols m = scols s
          \<and> cell m i j = (if chan s 1 i j > 1 / 2 then 255 else 0)))
   \<and> (nchan s \<le> 1 \<longrightarrow> text_heat s = Inl IndexError)
   \<and> returned (create_output_image cv2_resize ''POSE'' img glass out)
        = map_sum id fresh (np_add img (get_mask (pose_heat (maps out))))
   \<and> (1 < nchan (maps out) \<longrightarrow>
        returned (create_output_image cv2_resize ''TEXT'' img glass out)
          = map_sum id fresh (np_add img (get_mask (np_where_gt (plane (maps out) 1)))))"
  by (simp add: np_where_gt_def pose_heat_def text_heat_def plane_def drop_last_def
        np_sum_axis0_def Let_def comp_def interv_sum_list_conv_sum_set_nat atLeast0LessThan
        create_output_image_def pose_branch_def text_branch_def raised_def new_array_def
        split: sum.splits)

theorem threshold_stage_witness:
  "cell (np_where_gt (const_arr 1 1 (1 / 2))) 0 0 = 0
   \<and> cell (pose_heat example_stack) 0 0 = 510
   \<and> (\<exists>m. text_heat example_stack = Inr m \<and> cell m 0 0 = 255)"
  using threshold_stage [where m = "const_arr 1 1 (1 / 2)" and i = 0 and j = 0
      and s = example_stack and img = "const_arr 1 2 (0, 0, 0)" and glass = None
      and out = "heat example_stack" and ?cv2_resize = resize_same]
  by (auto simp: const_arr_def example_stack_def lessThan_Suc eval_nat_numeral)

subsection \<open>Compositing a mask\<close>

lemma np_add_same_shape:
  "nrows m = nrows img \<Longrightarrow> ncols m = ncols img \<Longrightarrow>
   \<exists>res. np_add img (get_mask m) = Inr res \<and> nrows res = nrows img \<and> ncols res = ncols img
     \<and> (\<forall>i<nrows img. \<forall>j<ncols img. cell res i j = padd (cell img i j) (0, cell m i j, 0))"
  by (auto simp: np_add_def get_mask_def bdim_def bidx_def)

text \<open>
  C2, as the claim states it, fails in its last part: the sum is not kept within 0 to 255.
  A green sample of 200 under a detected element becomes 455.
\<close>

theorem composite_sample_range_counterexample:
  "map_sum id (\<lambda>res. cell res 0 0)
     (np_add (const_arr 1 1 (10, 200, 30)) (get_mask (np_where_gt (const_arr 1 1 (9 / 10)))))
   = Inr (10, 455, 30)"
  by (simp add: np_add_def get_mask_def np_where_gt_def const_arr_def bdim_def bidx_def padd_def)

text \<open>
  C2, amended: for an image and a binary map of the image's height and width, adding the
  mask of the map succeeds and keeps the shape; at a position where the map is 255 only
  the green sample changes, to the input's green plus 255, and at a position where the
  map is 0 the pixel is the input's. Nothing is clamped: for 8-bit input the green sample
  of the result lies between 0 and 510.
\<close>

theorem composite_green_only:
  assumes "nrows m = nrows img" "ncols m = ncols img" "i < nrows img" "j < ncols img"
    and "cell m i j = 0 \<or> cell m i j = 255"
    and "cell img i j = (b, g, r)"
  shows "\<exists>res. np_add img (get_mask m) = Inr res
     \<and> nrows res = nrows img \<and> ncols res = ncols img
     \<and> cell res i j = (if cell m i j = 255 then (b, g + 255, r) else (b, g, r))
     \<and> (cell m i j = 255 \<longrightarrow> cell res i j \<noteq> cell img i j)
     \<and> (0 \<le> g \<and> g \<le> 255 \<longrightarrow> 0 \<le> fst (snd (cell res i j)) \<and> fst (snd (cell res i j)) \<le> 510)"
  using np_add_same_shape [OF assms(1,2)] assms(3-) by (auto simp: padd_def)

theorem composite_green_only_witness:
  "\<exists>res. np_add (const_arr 2 2 (10, 200, 30)) (get_mask (np_where_gt (const_arr 2 2 (9 / 10)))) = Inr res
     \<and> nrows res = 2 \<and> ncols res = 2 \<and> cell res 1 1 = (10, 455, 30)"
  using composite_green_only [of "np_where_gt (const_arr 2 2 (9 / 10))" "const_arr 2 2 (10, 200, 30)"
      1 1 10 200 30]
  by (auto simp: const_arr_def np_where_gt_def)

subsection \<open>Landmarks\<close>

lemma facial_loop_append:
  "facial_loop pts (xs @ ys) cv =
     (case facial_loop pts xs cv of
        (None, cv') \<Rightarrow> facial_loop pts ys cv'
      | (Some e, cv') \<Rightarrow> (Some e, cv'))"
  by (induction xs arbitrary: cv) auto

lemma facial_loop_in_range:
  "2 * n \<le> length pts \<Longrightarrow> \<forall>k<2 * n. fits_int32 (pts ! k) \<Longrightarrow>
   facial_loop pts (map (\<lambda>k. 2 * k) [0..<n]) cv =
     (None, cv\<lparr>drawn := drawn cv @ concat (map (marker pts) [0..<n])\<rparr>)"
proof (induction n)
  case 0
  then show ?case by simp
next
  case (Suc n)
  then show ?case
    by (simp add: facial_loop_append marker_def cv2_circle_def cv2_putText_def)
qed

lemma facial_loop_error:
  "2 * n \<le> length pts \<Longrightarrow>
   fst (facial_loop pts (map (\<lambda>k. 2 * k) [0..<n]) cv) =
     (if \<forall>k<2 * n. fits_int32 (pts ! k) then None else Some Cv2Error)"
proof (induction n)
  case 0
  then show ?case by simp
next
  case (Suc n)
  obtain e cv' where run: "facial_loop pts (map (\<lambda>k. 2 * k) [0..<n]) cv = (e, cv')"
    by (cases "facial_loop pts (map (\<lambda>k. 2 * k) [0..<n]) cv")
  have e: "e = (if \<forall>k<2 * n. fits_int32 (pts ! k) then None else Some Cv2Error)"
    using Suc run by simp
  have all: "(\<forall>k<2 * Suc n. fits_int32 (pts ! k)) =
      ((\<forall>k<2 * n. fits_int32 (pts ! k)) \<and> fits_int32 (pts ! (2 * n)) \<and> fits_int32 (pts ! (2 * n + 1)))"
    by (auto simp: less_Suc_eq)
  show ?case
  proof (cases "\<forall>k<2 * n. fits_int32 (pts ! k)")
    case True
    then show ?thesis
      using Suc.prems run e unfolding all by (simp add: facial_loop_append)
  next
    case False
    then show ?thesis
      using run e unfolding all by (simp add: facial_loop_append)
  qed
qed

lemma str_nat_digit: "n < 10 \<Longrightarrow> str_nat n = [digit_char n]"
  by (simp add: str_nat.simps [of n])

lemma markers_example:
  "concat (map (marker [10, 10, 20, 20]) [0..<2]) =
     [Circle (10, 10) 4 (255, 0, 0) (- 1),
      PutText ''p0'' (10, 10) FONT_HERSHEY_SIMPLEX (7 / 10) (255, 255, 255) 2,
      Circle (20, 20) 4 (255, 0, 0) (- 1),
      PutText ''p1'' (20, 20) FONT_HERSHEY_SIMPLEX (7 / 10) (255, 255, 255) 2]"
  by (simp add: marker_def upt_conv_Cons str_nat_digit digit_char_def)

text \<open>
  C5, as the claim states it, fails: not every list of even length has its markers drawn.
  A coordinate that does not fit a 32-bit signed integer makes \<^verbatim>\<open>cv2.circle\<close> raise, and the
  call draws nothing.
\<close>

theorem facial_coordinate_counterexample:
  "create_output_image resize_same ''FACIAL'' (black 2) None (ints [2147483648, 5]) =
     \<lparr>returned = Inl Cv2Error, caller_image = \<lparr>pixels = black 2, drawn = []\<rparr>, printed = []\<rparr>"
  by (simp add: create_output_image_def facial_branch_def ints_def range_step2_def upt_conv_Cons
        fits_int32_def raised_def fresh_def)

text \<open>
  C5, amended: for a landmark list of even length \<open>2N\<close> whose entries all fit a 32-bit
  signed integer, the FACIAL branch returns the caller's image with exactly the markers of
  the landmarks \<open>0\<close> to \<open>N-1\<close> drawn on it in order and nothing else, each marker a filled
  circle of radius 4 at its pair and the label \<open>p\<close> with its index at the same point. A
  list of even length with an entry that does not fit raises the error of OpenCV. A list
  of odd length always raises: IndexError, at the pair that is cut short, when its
  entries all fit, and then the markers of the complete pairs are on the caller's image.
\<close>

theorem facial_markers:
  "(length (seq out) = 2 * n \<and> (\<forall>x\<in>set (seq out). fits_int32 x) \<longrightarrow>
      returned (create_output_image cv2_resize ''FACIAL'' img glass out)
        = Inr \<lparr>pixels = img, drawn = concat (map (marker (seq out)) [0..<n])\<rparr>
      \<and> caller_image (create_output_image cv2_resize ''FACIAL'' img glass out)
        = \<lparr>pixels = img, drawn = concat (map (marker (seq out)) [0..<n])\<rparr>)
   \<and> (even (length (seq out)) \<and> \<not> (\<forall>x\<in>set (seq out). fits_int32 x) \<longrightarrow>
      returned (create_output_image cv2_resize ''FACIAL'' img glass out) = Inl Cv2Error)
   \<and> (odd (length (seq out)) \<and> (\<forall>x\<in>set (seq out). fits_int32 x) \<longrightarrow>
      returned (create_output_image cv2_resize ''FACIAL'' img glass out) = Inl IndexError
      \<and> caller_image (create_output_image cv2_resize ''FACIAL'' img glass out)
        = \<lparr>pixels = img,
           drawn = concat (map (marker (seq out)) [0..<length (seq out) div 2])\<rparr>)
   \<and> (odd (length (seq out)) \<longrightarrow>
      (\<exists>e. returned (create_output_image cv2_resize ''FACIAL'' img glass out) = Inl e))"
proof -
  let ?pts = "seq out"
  let ?run = "\<lambda>m. facial_loop ?pts (map (\<lambda>k. 2 * k) [0..<m]) (fresh img)"
  have call: "create_output_image cv2_resize ''FACIAL'' img glass out =
      (case facial_loop ?pts (range_step2 (length ?pts)) (fresh img) of
         (None, cv) \<Rightarrow> in_place cv | (Some e, cv) \<Rightarrow> raised e cv)"
    by (simp add: create_output_image_def facial_branch_def)
  have fits: "(\<forall>x\<in>set ?pts. fits_int32 x) = (\<forall>k<length ?pts. fits_int32 (?pts ! k))"
    by (simp add: all_set_conv_all_nth)
  have drawn_all: "returned (create_output_image cv2_resize ''FACIAL'' img glass out)
        = Inr \<lparr>pixels = img, drawn = concat (map (marker ?pts) [0..<n])\<rparr>
      \<and> caller_image (create_output_image cv2_resize ''FACIAL'' img glass out)
        = \<lparr>pixels = img, drawn = concat (map (marker ?pts) [0..<n])\<rparr>"
    if "length ?pts = 2 * n" "\<forall>x\<in>set ?pts. fits_int32 x"
    using that facial_loop_in_range [of n ?pts "fresh img"]
    by (simp add: call fits range_step2_def fresh_def in_place_def)
  have unfit: "returned (create_output_image cv2_resize ''FACIAL'' img glass out) = Inl Cv2Error"
    if ev: "even (length ?pts)" and bad: "\<not> (\<forall>x\<in>set ?pts. fits_int32 x)"
  proof -
    from ev obtain m where m: "length ?pts = 2 * m"
      by (auto elim: evenE)
    obtain cv where "?run m = (Some Cv2Error, cv)"
      using facial_loop_error [of m ?pts "fresh img"] bad m
      by (cases "?run m") (simp add: fits)
    then show ?thesis
      using m by (simp add: call range_step2_def raised_def)
  qed
  have cut_short: "\<exists>e. returned (create_output_image cv2_resize ''FACIAL'' img glass out) = Inl e
      \<and> ((\<forall>x\<in>set ?pts. fits_int32 x) \<longrightarrow> e = IndexError)"
    if od: "odd (length ?pts)"
  proof -
    from od obtain m where m: "length ?pts = 2 * m + 1"
      by (auto elim: oddE)
    then have range: "range_step2 (length ?pts) = map (\<lambda>k. 2 * k) [0..<m] @ [2 * m]"
      by (simp add: range_step2_def)
    obtain e cv where run: "?run m = (e, cv)"
      by (cases "?run m")
    have e: "e = (if \<forall>k<2 * m. fits_int32 (?pts ! k) then None else Some Cv2Error)"
      using facial_loop_error [of m ?pts "fresh img"] m run by simp
    have full: "facial_loop ?pts (range_step2 (length ?pts)) (fresh img) =
        (case e of None \<Rightarrow> (Some IndexError, cv) | Some err \<Rightarrow> (Some err, cv))"
      unfolding range facial_loop_append run using m by (simp split: option.splits)
    show ?thesis
    proof (cases e)
      case None
      then show ?thesis
        unfolding call full by (simp add: raised_def)
    next
      case (Some err)
      then obtain k where "k < 2 * m" "\<not> fits_int32 (?pts ! k)"
        using e by (auto split: if_splits)
      then have "\<not> (\<forall>k<length ?pts. fits_int32 (?pts ! k))"
        using m by (metis add_lessD1 less_add_one less_trans)
      then show ?thesis
        unfolding call full using Some by (auto simp: raised_def fits)
    qed
  qed
  have complete_pairs: "caller_image (create_output_image cv2_resize ''FACIAL'' img glass out)
        = \<lparr>pixels = img, drawn = concat (map (marker ?pts) [0..<length ?pts div 2])\<rparr>"
    if od: "odd (length ?pts)" and ok: "\<forall>x\<in>set ?pts. fits_int32 x"
  proof -
    from od obtain m where m: "length ?pts = 2 * m + 1"
      by (auto elim: oddE)
    then have range: "range_step2 (length ?pts) = map (\<lambda>k. 2 * k) [0..<m] @ [2 * m]"
      by (simp add: range_step2_def)
    have "\<forall>k<2 * m. fits_int32 (?pts ! k)"
      using ok m by (simp add: fits)
    then have run: "?run m = (None, \<lparr>pixels = img, drawn = concat (map (marker ?pts) [0..<m])\<rparr>)"
      using facial_loop_in_range [of m ?pts "fresh img"] m by (simp add: fresh_def)
    have half: "length ?pts div 2 = m"
      using m by simp
    show ?thesis
      unfolding call range facial_loop_append run half using m by (simp add: raised_def)
  qed
  show ?thesis
    using drawn_all unfit cut_short complete_pairs by blast
qed

theorem facial_markers_witness:
  "returned (create_output_image resize_same ''FACIAL'' (const_arr 30 30 (0, 0, 0)) None
       (ints [10, 10, 20, 20]))
     = Inr \<lparr>pixels = const_arr 30 30 (0, 0, 0),
         drawn = [Circle (10, 10) 4 (255, 0, 0) (- 1),
                  PutText ''p0'' (10, 10) FONT_HERSHEY_SIMPLEX (7 / 10) (255, 255, 255) 2,
                  Circle (20, 20) 4 (255, 0, 0) (- 1),
                  PutText ''p1'' (20, 20) FONT_HERSHEY_SIMPLEX (7 / 10) (255, 255, 255) 2]\<rparr>
   \<and> caller_image (create_output_image resize_same ''FACIAL'' (const_arr 30 30 (0, 0, 0)) None
       (ints [10, 10, 20, 20]))
     = \<lparr>pixels = const_arr 30 30 (0, 0, 0),
         drawn = [Circle (10, 10) 4 (255, 0, 0) (- 1),
                  PutText ''p0'' (10, 10) FONT_HERSHEY_SIMPLEX (7 / 10) (255, 255, 255) 2,
                  Circle (20, 20) 4 (255, 0, 0) (- 1),
                  PutText ''p1'' (20, 20) FONT_HERSHEY_SIMPLEX (7 / 10) (255, 255, 255) 2]\<rparr>
   \<and> returned (create_output_image resize_same ''FACIAL'' (const_arr 30 30 (0, 0, 0)) None
       (ints [10, 10, 20]))
     = Inl IndexError
   \<and> caller_image (create_output_image resize_same ''FACIAL'' (const_arr 30 30 (0, 0, 0)) None
       (ints [10, 10, 20]))
     = \<lparr>pixels = const_arr 30 30 (0, 0, 0),
         drawn = [Circle (10, 10) 4 (255, 0, 0) (- 1),
                  PutText ''p0'' (10, 10) FONT_HERSHEY_SIMPLEX (7 / 10) (255, 255, 255) 2]\<rparr>
   \<and> returned (create_output_image resize_same ''FACIAL'' (const_arr 30 30 (0, 0, 0)) None
       (ints [10, 2147483648]))
     = Inl Cv2Error"
proof -
  have even_fits: "length (seq (ints [10, 10, 20, 20])) = 2 * 2
      \<and> (\<forall>x\<in>set (seq (ints [10, 10, 20, 20])). fits_int32 x)"
    by (simp add: ints_def fits_int32_def)
  have odd_fits: "odd (length (seq (ints [10, 10, 20])))
      \<and> (\<forall>x\<in>set (seq (ints [10, 10, 20])). fits_int32 x)"
    by (simp add: ints_def fits_int32_def)
  have even_unfit: "even (length (seq (ints [10, 2147483648])))
      \<and> \<not> (\<forall>x\<in>set (seq (ints [10, 2147483648])). fits_int32 x)"
    by (simp add: ints_def fits_int32_def)
  have seq_ints: "seq (ints [10, 10, 20, 20]) = [10, 10, 20, 20]"
    by (simp add: ints_def)
  have complete_pair: "concat (map (marker (seq (ints [10, 10, 20])))
        [0..<length (seq (ints [10, 10, 20])) div 2]) =
      [Circle (10, 10) 4 (255, 0, 0) (- 1),
       PutText ''p0'' (10, 10) FONT_HERSHEY_SIMPLEX (7 / 10) (255, 255, 255) 2]"
    by (simp add: ints_def marker_def str_nat_digit digit_char_def)
  show ?thesis
    using facial_markers [where out = "ints [10, 10, 20, 20]" and n = 2
        and ?cv2_resize = resize_same and img = "const_arr 30 30 (0, 0, 0)" and glass = None]
      facial_markers [where out = "ints [10, 10, 20]" and n = 0
        and ?cv2_resize = resize_same and img = "const_arr 30 30 (0, 0, 0)" and glass = None]
      facial_markers [where out = "ints [10, 2147483648]" and n = 0
        and ?cv2_resize = resize_same and img = "const_arr 30 30 (0, 0, 0)" and glass = None]
      even_fits odd_fits even_unfit
    unfolding seq_ints markers_example complete_pair by blast
qed

subsection \<open>The scale of the overlay\<close>

text \<open>
  C6: the scale is the Euclidean distance between the point held at entries 36 and 37 and
  the point held at entries 68 and 69 (the distance of the plane, as that of the complex
  numbers); for the points \<open>(0, 0)\<close> and \<open>(3, 4)\<close> it is 5. A list without these entries
  raises IndexError.
\<close>

theorem overlay_scale_euclidean:
  "(70 \<le> length pts \<longrightarrow>
      overlay_scale pts =
        Inr (dist (Complex (real_of_int (pts ! 36)) (real_of_int (pts ! 37)))
                  (Complex (real_of_int (pts ! 68)) (real_of_int (pts ! 69)))))
   \<and> (70 \<le> length pts \<and> pts ! 36 = 0 \<and> pts ! 37 = 0 \<and> pts ! 68 = 3 \<and> pts ! 69 = 4 \<longrightarrow>
      overlay_scale pts = Inr 5)
   \<and> (length pts < 70 \<longrightarrow> overlay_scale pts = Inl IndexError)"
proof -
  have "sqrt (real_of_int ((0 - 3)\<^sup>2 + (0 - 4)\<^sup>2)) = 5"
    using real_sqrt_abs [of 5] by simp
  then show ?thesis
    by (auto simp: overlay_scale_def dist_norm cmod_def)
qed

theorem overlay_scale_euclidean_witness:
  "overlay_scale landmarks_3_4_5 = Inr 5 \<and> overlay_scale [0, 0, 3, 4] = Inl IndexError"
proof -
  have len: "70 \<le> length landmarks_3_4_5"
    by (simp add: landmarks_3_4_5_def)
  have pts: "landmarks_3_4_5 ! 36 = 0 \<and> landmarks_3_4_5 ! 37 = 0
      \<and> landmarks_3_4_5 ! 68 = 3 \<and> landmarks_3_4_5 ! 69 = 4"
    by (simp add: landmarks_3_4_5_def nth_append)
  show ?thesis
    using overlay_scale_euclidean [of landmarks_3_4_5] overlay_scale_euclidean [of "[0, 0, 3, 4]"]
      len pts
    by auto
qed

subsection \<open>The overlay\<close>

lemma np_setitem_cases:
  "np_setitem a r c v =
     (if in_axis (nrows a) r \<and> in_axis (ncols a) c
      then Inr (a\<lparr>cell := (cell a)(wrap_index (nrows a) r := (cell a (wrap_index (nrows a) r))(wrap_index (ncols a) c := v))\<rparr>)
      else Inl IndexError)"
  by (simp add: np_setitem_def norm_index_def)











lemma sqrt_4: "sqrt 4 = 2"
  using real_sqrt_abs [of 2] by simp

lemma scales:
  "overlay_scale landmarks_wrap = Inr 2"
  "overlay_scale landmarks_low = Inr 2"
  "overlay_scale landmarks_inside = Inr 2"
  by (simp_all add: overlay_scale_def landmarks_wrap_def landmarks_low_def landmarks_inside_def
        nth_append sqrt_4)

lemma asset_simps [simp]:
  "nrows (asset n) = n" "ncols (asset n) = n" "cell (asset n) i j = (9, 9, 9, 255)"
  by (simp_all add: asset_def const_arr_def)

lemma black_simps [simp]:
  "nrows (black n) = n" "ncols (black n) = n" "cell (black n) i j = (0, 0, 0)"
  by (simp_all add: black_def const_arr_def)

lemma py_int_values: "py_int 2 = 2" "py_int 1 = 1" "py_int (- 1) = - 1" "py_int 0 = 0"
  by (simp_all add: py_int_def ceiling_eq_iff)

lemma glass_examples:
  "create_output_image resize_same ''GLASS'' img (Some (asset 2)) (ints landmarks_wrap)
     = overlay img (asset 2) landmarks_wrap"
  "create_output_image resize_same ''GLASS'' img (Some (asset 2)) (ints landmarks_low)
     = overlay img (asset 2) landmarks_low"
  "create_output_image resize_same ''GLASS'' img (Some (asset 2)) (ints landmarks_inside)
     = overlay img (asset 2) landmarks_inside"
  by (simp_all add: create_output_image_def glass_branch_def scales ints_def
        resize_same_def py_int_values)

lemma translation_values:
  "translation_vertical (asset 2) landmarks_wrap = - 1"
  "translation_horizontal (asset 2) landmarks_wrap = - 1"
  "translation_vertical (asset 2) landmarks_low = 1"
  "translation_horizontal (asset 2) landmarks_low = - 1"
  "translation_vertical (asset 2) landmarks_inside = 0"
  "translation_horizontal (asset 2) landmarks_inside = 0"
  by (simp_all add: translation_vertical_def translation_horizontal_def
        landmarks_wrap_def landmarks_low_def landmarks_inside_def py_int_values nth_append)

lemma product_2_2: "List.product [0..<2] [0..<2] = [(0, 0), (0, 1), (1, 0), (1, 1)]"
  by (simp add: upt_conv_Cons)


lemma overlay_low:
  "returned (overlay (black 2) (asset 2) landmarks_low) = Inl IndexError
   \<and> cell (pixels (caller_image (overlay (black 2) (asset 2) landmarks_low))) 1 1 = (9, 9, 9)"
  by (simp add: overlay_def translation_values product_2_2
        np_setitem_cases in_axis_def wrap_index_def alpha_def rgb_def raised_def fresh_def)

lemma overlay_unit:
  "cell (pixels (caller_image (overlay (black 2) (asset 2) landmarks_inside))) 0 0 = (9, 9, 9)"
  by (simp add: overlay_def translation_values product_2_2
        np_setitem_cases in_axis_def wrap_index_def alpha_def rgb_def in_place_def fresh_def)




subsection \<open>Failures and the caller's buffer\<close>

lemma raised_simps [simp]:
  "returned (raised e buf) = Inl e" "caller_image (raised e buf) = buf"
  "returned (in_place buf) = Inr buf" "caller_image (in_place buf) = buf"
  "returned (new_array img res) = Inr (fresh res)" "caller_image (new_array img res) = fresh img"
  by (simp_all add: raised_def in_place_def new_array_def)

lemma failing_prints_nothing:
  "returned (create_output_image rs t img glass out) = Inl e \<Longrightarrow>
   printed (create_output_image rs t img glass out) = []"
  by (auto simp: create_output_image_def branches_print_nothing split: if_splits)

lemma pose_text_buffer:
  "caller_image (pose_branch img s) = fresh img"
  "caller_image (text_branch img s) = fresh img"
  by (simp_all add: pose_branch_def text_branch_def split: sum.splits)

lemma car_gender_failure:
  "returned (car_meta_branch img xs) = Inl e \<Longrightarrow> caller_image (car_meta_branch img xs) = fresh img"
  "returned (gender_branch img xs) = Inl e \<Longrightarrow> caller_image (gender_branch img xs) = fresh img"
  by (auto simp: car_meta_branch_def gender_branch_def Let_def split: sum.splits)

lemma car_meta_bad_index:
  "create_output_image rs ''CAR_META'' img glass (ints [7, 0]) = raised IndexError (fresh img)"
  by (simp add: create_output_image_def car_meta_branch_def ints_def py_getitem_cases table_lengths)

lemma overlay_prints_nothing: "printed (overlay img g pts) = []"
  by (simp add: overlay_def split: prod.splits option.splits)

text \<open>
  C8, as the claim states it, fails twice over. GLASS with an asset that reaches below the
  image raises IndexError after it has written two pixels, and FACIAL on a list of odd
  length raises after it has drawn the complete pairs; \<^verbatim>\<open>perform_inference\<close> catches both,
  prints Error and saves the buffer with what the failed call left in it.
\<close>

theorem failure_swallowed_counterexample:
  "console (perform_inference resize_same ''GLASS'' (black 2) (Some (asset 2)) (ints landmarks_low))
     = [''Error'']
   \<and> cell (pixels (output_image
        (perform_inference resize_same ''GLASS'' (black 2) (Some (asset 2)) (ints landmarks_low)))) 1 1
     = (9, 9, 9)
   \<and> perform_inference resize_same ''FACIAL'' (black 2) None (ints [10, 10, 20])
     = \<lparr>output_image = \<lparr>pixels = black 2,
          drawn = [Circle (10, 10) 4 (255, 0, 0) (- 1),
                   PutText ''p0'' (10, 10) FONT_HERSHEY_SIMPLEX (7 / 10) (255, 255, 255) 2]\<rparr>,
        console = [''Error'']\<rparr>"
proof -
  have "range_step2 (Suc (Suc (Suc 0))) = [0, 2]"
    by (simp add: range_step2_def upt_conv_Cons)
  then have facial: "create_output_image resize_same ''FACIAL'' (black 2) None (ints [10, 10, 20])
     = raised IndexError \<lparr>pixels = black 2,
          drawn = [Circle (10, 10) 4 (255, 0, 0) (- 1),
                   PutText ''p0'' (10, 10) FONT_HERSHEY_SIMPLEX (7 / 10) (255, 255, 255) 2]\<rparr>"
    by (simp add: create_output_image_def facial_branch_def ints_def fresh_def cv2_circle_def
          cv2_putText_def str_nat_digit digit_char_def fits_int32_def)
  show ?thesis
    using overlay_low
    by (simp add: perform_inference_def Let_def glass_examples facial overlay_prints_nothing)
qed

text \<open>
  C8, amended: a call of the dispatcher returns an image or raises. A failing call of any
  type but FACIAL and GLASS leaves the caller's buffer as it was. No failure reaches the
  caller of \<^verbatim>\<open>perform_inference\<close>: on any failure it prints Error and saves the buffer as the
  failed call left it, and on a return it prints Success and saves the image returned.
\<close>

theorem failing_call_buffer:
  "(t \<noteq> ''FACIAL'' \<and> t \<noteq> ''GLASS''
      \<and> returned (create_output_image rs t img glass out) = Inl e \<longrightarrow>
        caller_image (create_output_image rs t img glass out) = fresh img)
   \<and> (returned (create_output_image rs t img glass out) = Inl e \<longrightarrow>
        perform_inference rs t img glass out =
          \<lparr>output_image = caller_image (create_output_image rs t img glass out),
           console = [''Error'']\<rparr>)
   \<and> (returned (create_output_image rs t img glass out) = Inr im \<longrightarrow>
        perform_inference rs t img glass out =
          \<lparr>output_image = im,
           console = printed (create_output_image rs t img glass out) @ [''Success'']\<rparr>)"
proof (intro conjI impI)
  assume "t \<noteq> ''FACIAL'' \<and> t \<noteq> ''GLASS''
      \<and> returned (create_output_image rs t img glass out) = Inl e"
  then show "caller_image (create_output_image rs t img glass out) = fresh img"
    by (auto simp: create_output_image_def pose_text_buffer car_gender_failure split: if_splits)
next
  assume "returned (create_output_image rs t img glass out) = Inl e"
  then show "perform_inference rs t img glass out =
          \<lparr>output_image = caller_image (create_output_image rs t img glass out),
           console = [''Error'']\<rparr>"
    by (simp add: perform_inference_def Let_def failing_prints_nothing)
next
  assume "returned (create_output_image rs t img glass out) = Inr im"
  then show "perform_inference rs t img glass out =
          \<lparr>output_image = im,
           console = printed (create_output_image rs t img glass out) @ [''Success'']\<rparr>"
    by (simp add: perform_inference_def Let_def)
qed

theorem failing_call_buffer_witness:
  "returned (create_output_image resize_same ''CAR_META'' (black 2) None (ints [7, 0])) = Inl IndexError
   \<and> caller_image (create_output_image resize_same ''CAR_META'' (black 2) None (ints [7, 0])) = fresh (black 2)
   \<and> perform_inference resize_same ''CAR_META'' (black 2) None (ints [7, 0])
       = \<lparr>output_image = fresh (black 2), console = [''Error'']\<rparr>
   \<and> perform_inference resize_same ''NONE'' (black 2) None (ints [7, 0])
       = \<lparr>output_image = fresh (black 2), console = [unknown_message, ''Success'']\<rparr>"
proof -
  have fails: "returned (create_output_image resize_same ''CAR_META'' (black 2) None (ints [7, 0]))
      = Inl IndexError"
    by (simp add: car_meta_bad_index)
  have passes: "returned (create_output_image resize_same ''NONE'' (black 2) None (ints [7, 0]))
      = Inr (fresh (black 2))"
    by (simp add: create_output_image_def)
  have warned: "printed (create_output_image resize_same ''NONE'' (black 2) None (ints [7, 0]))
      = [unknown_message]"
    by (simp add: create_output_image_def)
  show ?thesis
    using failing_call_buffer [where t = "''CAR_META''" and rs = resize_same and img = "black 2" and glass = None
        and out = "ints [7, 0]" and e = IndexError and im = "fresh (black 2)"]
      failing_call_buffer [where t = "''NONE''" and rs = resize_same and img = "black 2" and glass = None
        and out = "ints [7, 0]" and e = IndexError and im = "fresh (black 2)"]
      fails passes warned
    by simp
qed

subsection \<open>In place or not\<close>

lemma in_place_branches:
  "returned (car_meta_branch img xs) = Inr im \<Longrightarrow>
     caller_image (car_meta_branch img xs) = im \<and> pixels im = img \<and> length (drawn im) = 1"
  "returned (gender_branch img xs) = Inr im \<Longrightarrow>
     caller_image (gender_branch img xs) = im \<and> pixels im = img \<and> length (drawn im) = 1"
  "returned (facial_branch img xs) = Inr im \<Longrightarrow> caller_image (facial_branch img xs) = im"
  by (auto simp: car_meta_branch_def gender_branch_def facial_branch_def Let_def
        cv2_putText_def fresh_def split: sum.splits option.splits prod.splits)

lemma car_meta_white_car:
  "create_output_image rs ''CAR_META'' (black 2) glass (ints [0, 0]) =
     in_place \<lparr>pixels = black 2,
       drawn = [PutText ''Color: white, Type: car'' (50, 100) FONT_HERSHEY_SIMPLEX 2 (0, 255, 0) 3]\<rparr>"
  by (simp add: create_output_image_def car_meta_branch_def ints_def py_getitem_def
        CAR_COLORS_def CAR_TYPES_def cv2_putText_def fresh_def)

text \<open>
  C9, as the claim states it, fails: the GLASS branch writes the asset's pixels into the
  caller's buffer, where the pixel at row 0 and column 0 goes from black to the asset's
  colour, and the CAR_META branch draws its text into the caller's buffer.
\<close>

theorem render_mutates_buffer_counterexample:
  "cell (pixels (caller_image
      (create_output_image resize_same ''GLASS'' (black 2) (Some (asset 2)) (ints landmarks_inside)))) 0 0
     = (9, 9, 9)
   \<and> cell (black 2) 0 0 = (0, 0, 0)
   \<and> caller_image (create_output_image resize_same ''CAR_META'' (black 2) None (ints [0, 0]))
     = \<lparr>pixels = black 2,
        drawn = [PutText ''Color: white, Type: car'' (50, 100) FONT_HERSHEY_SIMPLEX 2 (0, 255, 0) 3]\<rparr>"
  using overlay_unit by (simp add: glass_examples car_meta_white_car)

text \<open>
  C9, amended: for POSE, TEXT and every unknown tag the caller's buffer is untouched by the
  call, whatever its outcome (POSE and TEXT return a new array). For CAR_META, FACIAL and
  GENDER the image returned is the caller's own buffer, drawn into in place; for CAR_META
  and GENDER it is the input's pixels with one text drawn on them.
\<close>

theorem buffer_untouched_or_in_place:
  "(t \<notin> {''CAR_META'', ''FACIAL'', ''GLASS'', ''GENDER''} \<longrightarrow>
      caller_image (create_output_image rs t img glass out) = fresh img)
   \<and> (t \<in> {''CAR_META'', ''FACIAL'', ''GENDER''}
        \<and> returned (create_output_image rs t img glass out) = Inr im \<longrightarrow>
      caller_image (create_output_image rs t img glass out) = im)
   \<and> (t \<in> {''CAR_META'', ''GENDER''}
        \<and> returned (create_output_image rs t img glass out) = Inr im \<longrightarrow>
      pixels im = img \<and> length (drawn im) = 1)"
proof -
  have car: "create_output_image rs ''CAR_META'' img glass out = car_meta_branch img (seq out)"
    and facial: "create_output_image rs ''FACIAL'' img glass out = facial_branch img (seq out)"
    and gender: "create_output_image rs ''GENDER'' img glass out = gender_branch img (seq out)"
    by (simp_all add: create_output_image_def)
  have untouched: "t \<notin> {''CAR_META'', ''FACIAL'', ''GLASS'', ''GENDER''} \<longrightarrow>
      caller_image (create_output_image rs t img glass out) = fresh img"
    by (simp add: create_output_image_def pose_text_buffer)
  have same: "t \<in> {''CAR_META'', ''FACIAL'', ''GENDER''}
        \<and> returned (create_output_image rs t img glass out) = Inr im \<longrightarrow>
      caller_image (create_output_image rs t img glass out) = im"
    using in_place_branches [of img "seq out" im] car facial gender by fastforce
  have drew: "t \<in> {''CAR_META'', ''GENDER''}
        \<and> returned (create_output_image rs t img glass out) = Inr im \<longrightarrow>
      pixels im = img \<and> length (drawn im) = 1"
    using in_place_branches(1,2) [of img "seq out" im] car gender by fastforce
  show ?thesis
    using untouched same drew by blast
qed

theorem buffer_untouched_or_in_place_witness:
  "caller_image (create_output_image resize_same ''POSE'' (black 2) None (heat example_stack))
     = fresh (black 2)
   \<and> caller_image (create_output_image resize_same ''CAR_META'' (black 2) None (ints [0, 0]))
     = \<lparr>pixels = black 2,
        drawn = [PutText ''Color: white, Type: car'' (50, 100) FONT_HERSHEY_SIMPLEX 2 (0, 255, 0) 3]\<rparr>"
proof -
  let ?im = "\<lparr>pixels = black 2,
        drawn = [PutText ''Color: white, Type: car'' (50, 100) FONT_HERSHEY_SIMPLEX 2 (0, 255, 0) 3]\<rparr>"
  have drew: "returned (create_output_image resize_same ''CAR_META'' (black 2) None (ints [0, 0]))
      = Inr ?im"
    by (simp add: car_meta_white_car)
  show ?thesis
    using buffer_untouched_or_in_place [where t = "''POSE''" and rs = resize_same and img = "black 2" and glass = None
        and out = "heat example_stack" and im = ?im]
      buffer_untouched_or_in_place [where t = "''CAR_META''" and rs = resize_same and img = "black 2" and glass = None
        and out = "ints [0, 0]" and im = ?im]
      drew
    by simp
qed

end
